theory Spec2Isabelle
  imports Main
begin

section \<open>Strings\<close>

text \<open>
  Python strings are modelled as \<^typ>\<open>string\<close>, the bytes of their UTF-8 encoding.
  \<open>str.lower\<close> and \<open>str.upper\<close> are modelled on the ASCII letters, the only letters that
  HTTP header names and HTTP verbs contain; other bytes are left as they are, so the
  model follows Python on ASCII text and says nothing about the case mapping of other
  letters.
\<close>

definition lower_char :: "char \<Rightarrow> char" where
  "lower_char c =
     (case map_of (zip ''ABCDEFGHIJKLMNOPQRSTUVWXYZ'' ''abcdefghijklmnopqrstuvwxyz'') c of
        Some d \<Rightarrow> d
      | None \<Rightarrow> c)"

definition upper_char :: "char \<Rightarrow> char" where
  "upper_char c =
     (case map_of (zip ''abcdefghijklmnopqrstuvwxyz'' ''ABCDEFGHIJKLMNOPQRSTUVWXYZ'') c of
        Some d \<Rightarrow> d
      | None \<Rightarrow> c)"

definition lower :: "string \<Rightarrow> string" where
  "lower s = map lower_char s"

definition upper :: "string \<Rightarrow> string" where
  "upper s = map upper_char s"


text \<open>Python's \<open>a or b\<close> on optional strings: \<open>a\<close> when it is truthy (present and not
  empty), \<open>b\<close> otherwise.\<close>

definition py_or :: "string option \<Rightarrow> string option \<Rightarrow> string option" where
  "py_or a b = (case a of None \<Rightarrow> b | Some s \<Rightarrow> if s = [] then b else Some s)"

subsection \<open>Percent-decoding and query strings\<close>

definition hex_digit :: "char \<Rightarrow> nat option" where
  "hex_digit c =
     map_of (zip ''0123456789abcdefABCDEF''
       [0, 1, 2, 3, 4, 5, 6, 7, 8, 9, 10, 11, 12, 13, 14, 15, 10, 11, 12, 13, 14, 15]) c"

text \<open>\<open>urllib.parse.unquote\<close>: every \<open>%XX\<close> with two hexadecimal digits is replaced by
  the byte it names, any other \<open>%\<close> stays.\<close>

fun unquote :: "string \<Rightarrow> string" where
  "unquote (c # h1 # h2 # rest) =
     (if c = CHR ''%'' then
        (case (hex_digit h1, hex_digit h2) of
           (Some a, Some b) \<Rightarrow> char_of (16 * a + b) # unquote rest
         | _ \<Rightarrow> c # unquote (h1 # h2 # rest))
      else c # unquote (h1 # h2 # rest))"
| "unquote (c # rest) = c # unquote rest"
| "unquote [] = []"

text \<open>\<open>s.split(sep)\<close> for a single character separator.\<close>

fun split_on :: "char \<Rightarrow> string \<Rightarrow> string list" where
  "split_on sep [] = [[]]"
| "split_on sep (c # cs) =
     (if c = sep then [] # split_on sep cs
      else (case split_on sep cs of
              [] \<Rightarrow> [[c]]
            | w # ws \<Rightarrow> (c # w) # ws))"

text \<open>\<open>s.partition('=')\<close>, without the separator: the text before the first \<open>=\<close> and
  the text after it (empty when there is none).\<close>

definition partition_eq :: "string \<Rightarrow> string \<times> string" where
  "partition_eq s =
     (takeWhile (\<lambda>x. x \<noteq> CHR ''='') s, drop 1 (dropWhile (\<lambda>x. x \<noteq> CHR ''='') s))"

definition plus_to_space :: "string \<Rightarrow> string" where
  "plus_to_space s = map (\<lambda>x. if x = CHR ''+'' then CHR '' '' else x) s"

text \<open>\<open>urllib.parse.parse_qsl(qs, keep_blank_values=True)\<close>: the pairs of a query string,
  in order; empty segments between \<open>&\<close> are skipped.\<close>

definition parse_qsl :: "string \<Rightarrow> (string \<times> string) list" where
  "parse_qsl qs =
     map (\<lambda>name_value.
            (unquote (plus_to_space (fst (partition_eq name_value))),
             unquote (plus_to_space (snd (partition_eq name_value)))))
         (filter (\<lambda>name_value. name_value \<noteq> []) (split_on CHR ''&'' qs))"

section \<open>Framework objects\<close>

subsection \<open>QueryDict\<close>

text \<open>
  A \<open>QueryDict\<close> is a multi-value dictionary: its keys in insertion order, each with the
  list of its values. \<open>copy()\<close> returns an equal, independent dictionary; values are
  immutable here, so it is the identity. A \<open>QueryDict\<close> is truthy when it has a key.
\<close>

type_synonym querydict = "(string \<times> string list) list"

definition appendlist :: "querydict \<Rightarrow> string \<Rightarrow> string \<Rightarrow> querydict" where
  "appendlist q k v =
     (if k \<in> set (map fst q)
      then map (\<lambda>(k', vs). if k' = k then (k', vs @ [v]) else (k', vs)) q
      else q @ [(k, [v])])"

text \<open>\<open>QueryDict(query_string)\<close>: every parsed pair is appended to the list of its key.
  \<open>QueryDict()\<close> is \<open>QueryDict ''''\<close>. Django's limit on the number of fields of an
  upload is left out.\<close>

definition QueryDict :: "string \<Rightarrow> querydict" where
  "QueryDict query_string = foldl (\<lambda>q (k, v). appendlist q k v) [] (parse_qsl query_string)"

definition copy :: "querydict \<Rightarrow> querydict" where
  "copy q = q"

text \<open>\<open>q.get(key)\<close>: the last value of the key; \<open>None\<close> when the key is missing or its
  list is empty.\<close>

definition qd_get :: "querydict \<Rightarrow> string \<Rightarrow> string option" where
  "qd_get q k =
     (case map_of q k of
        None \<Rightarrow> None
      | Some vs \<Rightarrow> if vs = [] then None else Some (last vs))"

subsection \<open>Headers\<close>

text \<open>
  Request and response headers are case-insensitive mappings: the store is keyed by the
  lower-cased name and keeps the name as it was written together with the value.
\<close>

type_synonym header_store = "string \<rightharpoonup> (string \<times> string)"

definition hdr_get :: "header_store \<Rightarrow> string \<Rightarrow> string option" where
  "hdr_get h name = map_option snd (h (lower name))"

definition hdr_contains :: "header_store \<Rightarrow> string \<Rightarrow> bool" where
  "hdr_contains h name = (h (lower name) \<noteq> None)"

definition hdr_setitem :: "header_store \<Rightarrow> string \<Rightarrow> string \<Rightarrow> header_store" where
  "hdr_setitem h name v = h(lower name \<mapsto> (name, v))"

subsection \<open>Requests\<close>

text \<open>
  The fields of \<open>HttpRequest\<close> that the middleware and the views read or write.
  \<open>QUERY\<close> and \<open>BODY\<close> are the attributes that \<open>HttpVerbViewMiddleware\<close> adds:
  \<open>None\<close> while the attribute has not been assigned. \<open>messages_storage\<close> holds the
  pending messages of \<open>django.contrib.messages\<close>.
\<close>

record request =
  req_method :: string
  req_headers :: header_store
  GET :: querydict
  POST :: querydict
  body :: string
  content_type :: string
  QUERY :: "querydict option"
  BODY :: "querydict option"
  messages_storage :: "string list"

text \<open>
  \<open>request.htmx\<close> is the \<open>HtmxDetails\<close> object that the middleware of django-htmx
  attaches to every request. It is truthy when the \<open>HX-Request\<close> header is \<open>true\<close>;
  its attributes read one header each and are \<open>None\<close> when the header is missing or
  empty.
\<close>

definition htmx_get_header_value :: "request \<Rightarrow> string \<Rightarrow> string option" where
  "htmx_get_header_value request name =
     (case hdr_get (req_headers request) name of
        None \<Rightarrow> None
      | Some v \<Rightarrow>
          if v = [] then None
          else if hdr_get (req_headers request) (name @ ''-URI-AutoEncoded'') = Some ''true''
          then Some (unquote v)
          else Some v)"

definition htmx :: "request \<Rightarrow> bool" where
  "htmx request = (htmx_get_header_value request ''HX-Request'' = Some ''true'')"

definition htmx_target :: "request \<Rightarrow> string option" where
  "htmx_target request = htmx_get_header_value request ''HX-Target''"

definition get_messages :: "request \<Rightarrow> string list" where
  "get_messages request = messages_storage request"

subsection \<open>Responses\<close>

text \<open>
  \<open>url\<close> is the attribute of the redirect response classes
  (\<open>HttpResponseRedirectBase\<close>): \<open>None\<close> for a response of another class, where reading
  the attribute raises \<open>AttributeError\<close>.
\<close>

record response =
  status_code :: int
  headers :: header_store
  content :: string
  url :: "string option"

datatype error =
    ImproperlyConfigured
  | PermissionDenied
  | BadRequest
  | AttributeError
  | KeyError string
  | TypeError
  | RawPostDataException
  | DisallowedRedirect




text \<open>\<open>HttpResponse(content, status=...)\<close>: a fresh response with the default content
  type as its only header.\<close>

definition HttpResponse :: "string \<Rightarrow> int \<Rightarrow> response" where
  "HttpResponse html status =
     \<lparr>status_code = status,
      headers = hdr_setitem Map.empty ''Content-Type'' ''text/html; charset=utf-8'',
      content = html,
      url = None\<rparr>"

text \<open>The response object that \<open>django_htmx.http.HttpResponseClientRedirect\<close> builds
  for a target it accepts: status 200, the target in the \<open>HX-Redirect\<close> header, no
  \<open>Location\<close> header.\<close>

definition client_redirect_response :: "string \<Rightarrow> response" where
  "client_redirect_response redirect_to =
     \<lparr>status_code = 200,
      headers = hdr_setitem (hdr_setitem Map.empty ''Content-Type'' ''text/html; charset=utf-8'')
                  ''HX-Redirect'' redirect_to,
      content = [],
      url = Some redirect_to\<rparr>"

text \<open>The scheme of a URL as \<open>urlsplit\<close> reads it, for a URL without white space and
  control characters: the text before the first colon, in lower case, when it starts with
  a letter and consists of letters, digits, \<open>+\<close>, \<open>-\<close> and \<open>.\<close>.\<close>

definition url_scheme :: "string \<Rightarrow> string option" where
  "url_scheme u =
     (let s = takeWhile (\<lambda>c. c \<noteq> CHR '':'') u in
      case s of
        [] \<Rightarrow> None
      | c # cs \<Rightarrow>
          if length s < length u
             \<and> c \<in> set ''abcdefghijklmnopqrstuvwxyzABCDEFGHIJKLMNOPQRSTUVWXYZ''
             \<and> list_all (\<lambda>x. x \<in> set ''abcdefghijklmnopqrstuvwxyzABCDEFGHIJKLMNOPQRSTUVWXYZ0123456789+-.'') s
          then Some (lower s)
          else None)"

text \<open>
  The constructor \<open>HttpResponseClientRedirect(redirect_to)\<close>, with the scheme check of
  Django's redirect responses: a URL with a scheme other than \<open>http\<close>, \<open>https\<close> and
  \<open>ftp\<close> is refused with \<open>DisallowedRedirect\<close>; the other checks of the constructor
  are left out. The class belongs to django-htmx, so
  the middleware below takes the constructor as an argument and the theorems about the
  middleware hold for every constructor; this definition is the one used in the
  examples.
\<close>

definition HttpResponseClientRedirect :: "string \<Rightarrow> error + response" where
  "HttpResponseClientRedirect redirect_to =
     (case url_scheme redirect_to of
        None \<Rightarrow> Inr (client_redirect_response redirect_to)
      | Some scheme \<Rightarrow>
          if scheme \<in> set [''http'', ''https'', ''ftp'']
          then Inr (client_redirect_response redirect_to)
          else Inl DisallowedRedirect)"

text \<open>The inner handler of a middleware: it returns the response and the request as the
  views left it (a view queues messages on the request).\<close>

type_synonym get_response = "request \<Rightarrow> response \<times> request"

section \<open>Middleware (package django_htmx_cbv)\<close>

subsection \<open>HtmxVaryMiddleware\<close>

definition HtmxVaryMiddleware_call :: "get_response \<Rightarrow> request \<Rightarrow> response" where
  "HtmxVaryMiddleware_call get_response request =
     (let (response, request) = get_response request in
      if htmx request
      then response\<lparr>headers := hdr_setitem (headers response) ''Vary'' ''HX-Request''\<rparr>
      else response)"

subsection \<open>HttpVerbViewMiddleware\<close>

text \<open>\<open>process_view\<close> returns nothing and changes the request in place; the model
  returns the request as it leaves it. A branch that assigns nothing leaves \<open>BODY\<close> as
  it was.\<close>

definition process_view :: "request \<Rightarrow> request" where
  "process_view request =
     (let request = request\<lparr>QUERY := Some (copy (GET request))\<rparr>;
          request =
            (if req_method request \<in> set [''GET'', ''DELETE'']
             then request\<lparr>BODY := Some (QueryDict [])\<rparr>
             else if req_method request = ''POST''
             then request\<lparr>BODY := Some (copy (POST request))\<rparr>
             else if req_method request \<in> set [''PUT'', ''PATCH'']
             then (if content_type request = ''application/x-www-form-urlencoded''
                   then request\<lparr>BODY := Some (QueryDict (body request))\<rparr>
                   else request)
             else request)
      in if \<not> htmx request
         then (case py_or (qd_get (POST request) ''_method'') (qd_get (GET request) ''_method'') of
                 None \<Rightarrow> request
               | Some m \<Rightarrow> if m \<noteq> [] then request\<lparr>req_method := upper m\<rparr> else request)
         else request)"

subsection \<open>HtmxPartialTemplateMiddleware\<close>


text \<open>\<open>__call__\<close>; \<open>client_redirect\<close> is the constructor
  \<open>HttpResponseClientRedirect\<close>, which returns the new response or raises.\<close>

definition HtmxPartialTemplateMiddleware_call ::
  "(string \<Rightarrow> error + response) \<Rightarrow> get_response \<Rightarrow> request \<Rightarrow> error + response" where
  "HtmxPartialTemplateMiddleware_call client_redirect get_response request =
     (let (response, request) = get_response request in
      if htmx request \<and> status_code response = 302
      then (case url response of
              None \<Rightarrow> Inl AttributeError
            | Some redirect_to \<Rightarrow> client_redirect redirect_to)
      else Inr response)"



subsection \<open>HtmxMessageMiddleware\<close>

text \<open>\<open>messages_template\<close> is
  \<open>getattr(settings, 'MESSAGES_TEMPLATE_NAME', 'messages.html')\<close>.\<close>

definition messages_template :: "string option \<Rightarrow> string" where
  "messages_template setting = (case setting of None \<Rightarrow> ''messages.html'' | Some s \<Rightarrow> s)"

text \<open>The three guards that return the response of the inner handler before any message
  is rendered, in the order of the source.\<close>

definition returns_early :: "request \<Rightarrow> response \<Rightarrow> bool" where
  "returns_early request response =
     (if hdr_contains (headers response) ''HX-Redirect'' then True
      else if \<not> hdr_contains (req_headers request) ''HX-Request'' then True
      else if 300 \<le> status_code response \<and> status_code response < 400 then True
      else False)"

text \<open>\<open>render_to_string\<close> is the template engine: it takes the template name, the
  messages of the context and the request.\<close>

definition HtmxMessageMiddleware_call ::
  "string option \<Rightarrow> (string \<Rightarrow> string list \<Rightarrow> request \<Rightarrow> string) \<Rightarrow> get_response \<Rightarrow> request
     \<Rightarrow> response" where
  "HtmxMessageMiddleware_call setting render_to_string get_response request =
     (let (response, request) = get_response request in
      if returns_early request response then response
      else (let messages = get_messages request in
            if messages \<noteq> []
            then (let html = render_to_string (messages_template setting) messages request in
                  if status_code response = 204
                  then HttpResponse html 200
                  else response\<lparr>content := content response @ html\<rparr>)
            else response))"

section \<open>Middleware (package django_htmx_cbvs)\<close>

text \<open>
  Reading \<open>request.body\<close> after \<open>request.POST\<close>: for a POST with content type
  \<open>multipart/form-data\<close> and a body that is not empty, the upload parser has consumed
  the stream when it filled \<open>request.POST\<close>, and the property raises
  \<open>RawPostDataException\<close>; otherwise it is the raw body. The limit on the size of a
  body is left out.
\<close>

definition body_after_POST :: "request \<Rightarrow> error + string" where
  "body_after_POST request =
     (if req_method request = ''POST'' \<and> content_type request = ''multipart/form-data''
         \<and> body request \<noteq> []
      then Inl RawPostDataException
      else Inr (body request))"

text \<open>\<open>process_view\<close> of \<open>django_htmx_cbvs\<close>. It returns the request as the function
  leaves it, and the exception when it raises one: an exception leaves the assignments
  made before it in place.\<close>

definition process_view_cbvs :: "request \<Rightarrow> request \<times> error option" where
  "process_view_cbvs request =
     (let request = request\<lparr>QUERY := Some (copy (GET request))\<rparr> in
      case (if copy (POST request) \<noteq> [] then Inr (copy (POST request))
            else (case body_after_POST request of
                    Inl e \<Rightarrow> Inl e
                  | Inr raw \<Rightarrow> Inr (QueryDict raw))) of
        Inl e \<Rightarrow> (request, Some e)
      | Inr b \<Rightarrow>
          (let request = request\<lparr>BODY := Some b\<rparr> in
           (if \<not> htmx request
            then (case py_or (qd_get (POST request) ''_method'') (qd_get (GET request) ''_method'') of
                    None \<Rightarrow> request
                  | Some m \<Rightarrow> if m \<noteq> [] then request\<lparr>req_method := upper m\<rparr> else request)
            else request,
            None)))"


definition returns_early_cbvs :: "request \<Rightarrow> response \<Rightarrow> bool" where
  "returns_early_cbvs request response =
     (if \<not> hdr_contains (req_headers request) ''HX-Request'' then True
      else if 300 \<le> status_code response \<and> status_code response < 400 then True
      else if hdr_contains (headers response) ''HX-Redirect'' then True
      else False)"

definition HtmxMessageMiddleware_call_cbvs ::
  "(string \<Rightarrow> string list \<Rightarrow> request \<Rightarrow> string) \<Rightarrow> get_response \<Rightarrow> request \<Rightarrow> response" where
  "HtmxMessageMiddleware_call_cbvs render_to_string get_response request =
     (let (response, request) = get_response request in
      if returns_early_cbvs request response then response
      else (let messages = get_messages request in
            if messages \<noteq> []
            then (let html = render_to_string ''messages.html'' messages request in
                  if status_code response = 204
                  then HttpResponse html 200
                  else response\<lparr>content := content response @ html\<rparr>)
            else response))"

section \<open>Views\<close>

subsection \<open>ProcessHyperFormView\<close>

definition ProcessHyperFormView_delete :: "request \<Rightarrow> error + response" where
  "ProcessHyperFormView_delete request = Inl ImproperlyConfigured"

subsection \<open>SingleObjectPermissionMixin\<close>

definition SingleObjectPermissionMixin_has_permission :: "request \<Rightarrow> 'obj \<Rightarrow> error + bool" where
  "SingleObjectPermissionMixin_has_permission request obj = Inl ImproperlyConfigured"

text \<open>\<open>setup\<close> stores the object in \<open>self.object\<close>; the model returns it.
  \<open>get_object\<close> and \<open>has_permission\<close> are the methods of the view, which a subclass
  may override. An \<open>AttributeError\<close> of \<open>get_object\<close> is caught; any other error, and
  every error of \<open>has_permission\<close>, leaves \<open>setup\<close>.\<close>

definition SingleObjectPermissionMixin_setup ::
  "(request \<Rightarrow> error + 'obj) \<Rightarrow> (request \<Rightarrow> 'obj \<Rightarrow> error + bool) \<Rightarrow> request \<Rightarrow> error + 'obj option" where
  "SingleObjectPermissionMixin_setup get_object has_permission request =
     (case get_object request of
        Inl e \<Rightarrow> if e = AttributeError then Inr None else Inl e
      | Inr obj \<Rightarrow>
          (case has_permission request obj of
             Inl e \<Rightarrow> Inl e
           | Inr allowed \<Rightarrow> if \<not> allowed then Inl PermissionDenied else Inr (Some obj)))"

subsection \<open>HtmxChainedForm\<close>

text \<open>
  A form field either has a \<open>queryset\<close> (and with it \<open>choices\<close>), or \<open>choices\<close> only,
  or neither. The value that \<open>get_options\<close> gives for a field is a \<open>QuerySet\<close>, a list,
  or something else.
\<close>

datatype field = Field | ChoiceField "string list" | ModelChoiceField "string list"

datatype choices = QuerySet "string list" | PyList "string list" | PyOther

definition hasattr_choices :: "field \<Rightarrow> bool" where
  "hasattr_choices f = (case f of Field \<Rightarrow> False | ChoiceField _ \<Rightarrow> True | ModelChoiceField _ \<Rightarrow> True)"

text \<open>\<open>d[k] = v\<close> on a dictionary kept as an association list in insertion order.\<close>

definition dict_setitem :: "('k \<times> 'v) list \<Rightarrow> 'k \<Rightarrow> 'v \<Rightarrow> ('k \<times> 'v) list" where
  "dict_setitem d k v =
     (if k \<in> set (map fst d)
      then map (\<lambda>(k', v'). if k' = k then (k', v) else (k', v')) d
      else d @ [(k, v)])"

record kwargs =
  kw_initial :: "(string \<times> string) list"
  kw_data :: "querydict option"
  kw_options :: "(string \<times> choices) list option"

record form =
  form_fields :: "(string \<times> field) list"
  form_initial :: "(string \<times> string) list"
  form_data :: "querydict option"

text \<open>The loop of \<open>HtmxChainedForm.__init__\<close> over the items of \<open>options\<close>.\<close>

fun set_options :: "(string \<times> field) list \<Rightarrow> (string \<times> choices) list \<Rightarrow> error + (string \<times> field) list" where
  "set_options fs [] = Inr fs"
| "set_options fs ((field_name, chs) # rest) =
     (case map_of fs field_name of
        None \<Rightarrow> Inl (KeyError field_name)
      | Some form_field \<Rightarrow>
          (case form_field of
             ModelChoiceField _ \<Rightarrow>
               (case chs of
                  QuerySet qs \<Rightarrow> set_options (dict_setitem fs field_name (ModelChoiceField qs)) rest
                | _ \<Rightarrow> Inl TypeError)
           | ChoiceField _ \<Rightarrow>
               (case chs of
                  PyList l \<Rightarrow> set_options (dict_setitem fs field_name (ChoiceField l)) rest
                | _ \<Rightarrow> Inl TypeError)
           | Field \<Rightarrow> set_options (dict_setitem fs field_name form_field) rest))"

text \<open>\<open>HtmxChainedForm(**kwargs)\<close> for a form class with the given base fields.\<close>

definition HtmxChainedForm :: "(string \<times> field) list \<Rightarrow> kwargs \<Rightarrow> error + form" where
  "HtmxChainedForm base_fields kw =
     (let self = \<lparr>form_fields = base_fields, form_initial = kw_initial kw, form_data = kw_data kw\<rparr> in
      case kw_options kw of
        None \<Rightarrow> Inr self
      | Some options \<Rightarrow>
          (case set_options (form_fields self) options of
             Inl e \<Rightarrow> Inl e
           | Inr fs \<Rightarrow> Inr (self\<lparr>form_fields := fs\<rparr>)))"

subsection \<open>HtmxChainedFormView\<close>

text \<open>
  The attributes and overridable methods of a view class: the base fields of its form
  class (a subclass of \<open>HtmxChainedForm\<close>), its \<open>http_method_names\<close>, its \<open>initial\<close>
  dictionary, its \<open>get_options\<close> method, and the rendering of a bound field of a form
  (\<open>str(bound_field)\<close>).
\<close>

record view =
  base_fields :: "(string \<times> field) list"
  http_method_names :: "string list"
  view_initial :: "(string \<times> string) list"
  get_options :: "request \<Rightarrow> error + (string \<times> choices) list"
  render_bound_field :: "form \<Rightarrow> string \<Rightarrow> string"

definition HtmxChainedFormView_get_options :: "request \<Rightarrow> error + (string \<times> choices) list" where
  "HtmxChainedFormView_get_options request = Inl ImproperlyConfigured"

text \<open>\<open>QueryDict.dict()\<close>: every key with its last value.\<close>

definition qd_dict :: "querydict \<Rightarrow> (string \<times> string) list" where
  "qd_dict q = map (\<lambda>(k, vs). (k, if vs = [] then [] else last vs)) q"

definition get_initial :: "view \<Rightarrow> request \<Rightarrow> error + (string \<times> string) list" where
  "get_initial self request =
     (let initial = view_initial self in
      if http_method_names self \<noteq> [''get'']
      then (case QUERY request of
              None \<Rightarrow> Inl AttributeError
            | Some query \<Rightarrow>
                if query \<noteq> []
                then Inr (foldl (\<lambda>d (k, v). dict_setitem d k v) initial
                            (filter (\<lambda>(k, v). k \<in> set (map fst (base_fields self))) (qd_dict query)))
                else Inr initial)
      else Inr initial)"

text \<open>\<open>HyperFormMixin.get_form_kwargs\<close>, on top of \<open>FormMixin.get_form_kwargs\<close>, which
  binds \<open>request.POST\<close> for POST and PUT.\<close>

definition HyperFormMixin_get_form_kwargs :: "view \<Rightarrow> request \<Rightarrow> error + kwargs" where
  "HyperFormMixin_get_form_kwargs self request =
     (case get_initial self request of
        Inl e \<Rightarrow> Inl e
      | Inr initial \<Rightarrow>
          (let kw = \<lparr>kw_initial = initial,
                     kw_data = (if req_method request \<in> set [''POST'', ''PUT'']
                                then Some (POST request) else None),
                     kw_options = None\<rparr>
           in if http_method_names self = [''get'']
              then (case QUERY request of
                      None \<Rightarrow> Inl AttributeError
                    | Some query \<Rightarrow>
                        if query \<noteq> [] then Inr (kw\<lparr>kw_data := Some query\<rparr>)
                        else if initial \<noteq> []
                        then Inr (kw\<lparr>kw_data := Some (map (\<lambda>(k, v). (k, [v])) initial)\<rparr>)
                        else Inr kw)
              else if req_method request \<noteq> ''GET''
              then (case BODY request of
                      None \<Rightarrow> Inl AttributeError
                    | Some b \<Rightarrow> Inr (kw\<lparr>kw_data := Some b\<rparr>))
              else Inr kw))"

definition get_form_kwargs :: "view \<Rightarrow> request \<Rightarrow> error + kwargs" where
  "get_form_kwargs self request =
     (case HyperFormMixin_get_form_kwargs self request of
        Inl e \<Rightarrow> Inl e
      | Inr kw \<Rightarrow>
          if htmx request
          then (case get_options self request of
                  Inl e \<Rightarrow> Inl e
                | Inr options \<Rightarrow> Inr (kw\<lparr>kw_options := Some options\<rparr>))
          else Inr kw)"

definition form_field_ids :: "view \<Rightarrow> string list" where
  "form_field_ids self =
     map (\<lambda>(field_name, f). ''id_'' @ field_name)
       (filter (\<lambda>(field_name, f). hasattr_choices f) (base_fields self))
     @ [''id_choices'']"

text \<open>\<open>"".join(map(str, (form[field_name] for field_name in names)))\<close>: \<open>form[name]\<close>
  raises \<open>KeyError\<close> for a name that is not a field of the form.\<close>

fun join_bound_fields :: "view \<Rightarrow> form \<Rightarrow> string list \<Rightarrow> error + string" where
  "join_bound_fields self form [] = Inr []"
| "join_bound_fields self form (field_name # rest) =
     (if field_name \<in> set (map fst (form_fields form))
      then (case join_bound_fields self form rest of
              Inl e \<Rightarrow> Inl e
            | Inr html \<Rightarrow> Inr (render_bound_field self form field_name @ html))
      else Inl (KeyError field_name))"

definition HtmxChainedFormView_get :: "view \<Rightarrow> request \<Rightarrow> error + response" where
  "HtmxChainedFormView_get self request =
     (if (case htmx_target request of None \<Rightarrow> False | Some target \<Rightarrow> target \<in> set (form_field_ids self))
      then (case get_form_kwargs self request of
              Inl e \<Rightarrow> Inl e
            | Inr kw \<Rightarrow>
                (case HtmxChainedForm (base_fields self) kw of
                   Inl e \<Rightarrow> Inl e
                 | Inr form \<Rightarrow>
                     (case kw_options kw of
                        None \<Rightarrow> Inl (KeyError ''options'')
                      | Some options \<Rightarrow>
                          (case join_bound_fields self form (map fst options) of
                             Inl e \<Rightarrow> Inl e
                           | Inr html \<Rightarrow> Inr (HttpResponse html 200)))))
      else Inr (HttpResponse [] 204))"

section \<open>Example requests, responses and views\<close>

text \<open>The requests of the test suite: a query string \<open>foo=bar\<close>, with and without the
  headers that htmx sends.\<close>

definition example_request :: request where
  "example_request =
     \<lparr>req_method = ''GET'', req_headers = Map.empty, GET = QueryDict ''foo=bar'', POST = [],
      body = [], content_type = [], QUERY = None, BODY = None, messages_storage = []\<rparr>"

definition htmx_request :: request where
  "htmx_request = example_request\<lparr>req_headers := hdr_setitem Map.empty ''HX-Request'' ''true''\<rparr>"

definition htmx_target_request :: "string \<Rightarrow> request" where
  "htmx_target_request target =
     example_request\<lparr>req_headers :=
       hdr_setitem (hdr_setitem Map.empty ''HX-Request'' ''true'') ''HX-Target'' target\<rparr>"

text \<open>A request with a target header that is not marked as an htmx request.\<close>

definition plain_target_request :: "string \<Rightarrow> request" where
  "plain_target_request target =
     example_request\<lparr>req_headers := hdr_setitem Map.empty ''HX-Target'' target\<rparr>"

text \<open>A form-encoded request with the given verb and body, as Django hands it over:
  \<open>request.POST\<close> is parsed for POST only.\<close>

definition verb_request :: "string \<Rightarrow> string \<Rightarrow> request" where
  "verb_request verb raw =
     \<lparr>req_method = verb, req_headers = Map.empty, GET = QueryDict ''foo=bar'',
      POST = (if verb = ''POST'' then QueryDict raw else []),
      body = raw, content_type = ''application/x-www-form-urlencoded'',
      QUERY = None, BODY = None, messages_storage = []\<rparr>"

definition put_json_request :: request where
  "put_json_request = (verb_request ''PUT'' ''[1]'')\<lparr>content_type := ''application/json''\<rparr>"

definition page_view :: get_response where
  "page_view request = (HttpResponse ''<main></main>'' 200, request)"

definition message_view :: get_response where
  "message_view request =
     (HttpResponse ''<main></main>'' 200, request\<lparr>messages_storage := [''Message successful!'']\<rparr>)"

definition message_204_view :: get_response where
  "message_204_view request =
     (HttpResponse [] 204, request\<lparr>messages_storage := [''Message successful!'']\<rparr>)"

text \<open>\<open>redirect('page')\<close>: an \<open>HttpResponseRedirect\<close>.\<close>

definition redirect_302 :: get_response where
  "redirect_302 request =
     ((HttpResponse [] 302)\<lparr>headers := hdr_setitem (headers (HttpResponse [] 302)) ''Location'' ''/page/'',
                             url := Some ''/page/''\<rparr>,
      request\<lparr>messages_storage := [''Message successful!'']\<rparr>)"

text \<open>A view that builds its redirect by hand: \<open>HttpResponse(status=302)\<close> with a
  \<open>Location\<close> header.\<close>

definition bare_302 :: get_response where
  "bare_302 request =
     ((HttpResponse [] 302)\<lparr>headers := hdr_setitem (headers (HttpResponse [] 302)) ''Location'' ''/page/''\<rparr>,
      request)"

definition client_redirect_view :: get_response where
  "client_redirect_view request =
     (client_redirect_response ''/page/'', request\<lparr>messages_storage := [''Message successful!'']\<rparr>)"

text \<open>A redirect of a response class that allows a scheme of its own.\<close>

definition app_redirect :: get_response where
  "app_redirect request =
     ((HttpResponse [] 302)\<lparr>headers := hdr_setitem (headers (HttpResponse [] 302)) ''Location'' ''myapp://open'',
                             url := Some ''myapp://open''\<rparr>,
      request)"

definition render_messages :: "string \<Rightarrow> string list \<Rightarrow> request \<Rightarrow> string" where
  "render_messages template messages request = concat (map (\<lambda>m. ''<li>'' @ m @ ''</li>'') messages)"



text \<open>A POST with content type \<open>multipart/form-data\<close> that carries no form field.\<close>

definition multipart_request :: request where
  "multipart_request =
     \<lparr>req_method = ''POST'', req_headers = Map.empty, GET = QueryDict ''foo=bar'', POST = [],
      body = ''--boundary--'', content_type = ''multipart/form-data'',
      QUERY = None, BODY = None, messages_storage = []\<rparr>"

definition example_view :: view where
  "example_view =
     \<lparr>base_fields = [(''country'', ChoiceField []), (''city'', ChoiceField []), (''name'', Field)],
      http_method_names = [''get'', ''post'', ''put'', ''patch'', ''delete''],
      view_initial = [],
      get_options = (\<lambda>request. Inr [(''city'', PyList [''Paris'', ''Lyon''])]),
      render_bound_field = (\<lambda>form field_name. ''<select name='' @ field_name @ ''/>'')\<rparr>"




text \<open>A POST that asks for another verb through the form field \<open>_method\<close>, and a GET
  that asks for it in the query string.\<close>

definition post_override_request :: request where
  "post_override_request = verb_request ''POST'' ''_method=put&foo=bar''"

definition get_override_request :: request where
  "get_override_request = example_request\<lparr>GET := QueryDict ''_method=delete''\<rparr>"

definition htmx_override_request :: request where
  "htmx_override_request =
     post_override_request\<lparr>req_headers := hdr_setitem Map.empty ''HX-Request'' ''true''\<rparr>"

text \<open>A view that keeps the base \<open>get_options\<close>, and a permission check that a subclass
  has overridden to refuse.\<close>

definition unconfigured_view :: view where
  "unconfigured_view = example_view\<lparr>get_options := HtmxChainedFormView_get_options\<rparr>"

definition found_object :: "request \<Rightarrow> error + nat" where
  "found_object request = Inr 1"

definition refuse :: "request \<Rightarrow> nat \<Rightarrow> error + bool" where
  "refuse request obj = Inr False"

section \<open>Facts about the examples\<close>

lemma lower_simps:
  "lower ''HX-Request'' = ''hx-request''"
  "lower ''HX-Target'' = ''hx-target''"
  "lower ''HX-Redirect'' = ''hx-redirect''"
  "lower ''HX-Retarget'' = ''hx-retarget''"
  "lower ''HX-Partial-Name'' = ''hx-partial-name''"
  "lower ''Vary'' = ''vary''"
  "lower ''Location'' = ''location''"
  "lower ''Content-Type'' = ''content-type''"
  "lower ''HX-Request-URI-AutoEncoded'' = ''hx-request-uri-autoencoded''"
  "lower ''HX-Target-URI-AutoEncoded'' = ''hx-target-uri-autoencoded''"
  by (simp_all add: lower_def lower_char_def)

lemmas header_defs =
  htmx_def htmx_target_def htmx_get_header_value_def
  hdr_get_def hdr_contains_def hdr_setitem_def lower_simps

lemmas parse_defs =
  QueryDict_def parse_qsl_def partition_eq_def plus_to_space_def appendlist_def hex_digit_def

lemma QueryDict_empty [simp]: "QueryDict [] = []"
  by (simp add: parse_defs)

lemma QueryDict_examples:
  "QueryDict ''foo=bar'' = [(''foo'', [''bar''])]"
  "QueryDict ''int=1&str=1'' = [(''int'', [''1'']), (''str'', [''1''])]"
  "QueryDict ''a=1'' = [(''a'', [''1''])]"
  "QueryDict ''_method=put&foo=bar'' = [(''_method'', [''put'']), (''foo'', [''bar''])]"
  "QueryDict ''_method=delete'' = [(''_method'', [''delete''])]"
  "QueryDict ''[1]'' = [(''[1]'', [[]])]"
  by (simp_all add: parse_defs)

lemma htmx_examples:
  "\<not> htmx example_request"
  "htmx htmx_request"
  "htmx (htmx_target_request target)"
  "\<not> htmx (plain_target_request target)"
  "\<not> htmx (verb_request verb raw)"
  "\<not> htmx put_json_request"
  by (simp_all add: header_defs example_request_def htmx_request_def htmx_target_request_def
      plain_target_request_def verb_request_def put_json_request_def)

lemma htmx_target_examples:
  "htmx_target example_request = None"
  "htmx_target htmx_request = None"
  "target \<noteq> [] \<Longrightarrow> htmx_target (htmx_target_request target) = Some target"
  "target \<noteq> [] \<Longrightarrow> htmx_target (plain_target_request target) = Some target"
  by (simp_all add: header_defs example_request_def htmx_request_def htmx_target_request_def
      plain_target_request_def)

section \<open>HtmxVaryMiddleware\<close>

text \<open>
  Claim C7. For an htmx request the response of \<open>HtmxVaryMiddleware\<close> has the header
  \<open>Vary: HX-Request\<close>, and its status, body, redirect URL and every other header are
  those of the inner handler's response; for any other request the response of the
  inner handler is returned as it is.
\<close>

theorem HtmxVaryMiddleware_sets_only_Vary:
  assumes "get_response request = (response, request')"
  shows "(htmx request' \<longrightarrow>
            hdr_get (headers (HtmxVaryMiddleware_call get_response request)) ''Vary'' = Some ''HX-Request''
          \<and> status_code (HtmxVaryMiddleware_call get_response request) = status_code response
          \<and> content (HtmxVaryMiddleware_call get_response request) = content response
          \<and> url (HtmxVaryMiddleware_call get_response request) = url response
          \<and> (\<forall>k. k \<noteq> lower ''Vary'' \<longrightarrow>
                 headers (HtmxVaryMiddleware_call get_response request) k = headers response k))
       \<and> (\<not> htmx request' \<longrightarrow> HtmxVaryMiddleware_call get_response request = response)"
  using assms by (simp add: HtmxVaryMiddleware_call_def hdr_get_def hdr_setitem_def)

theorem HtmxVaryMiddleware_witness:
  "htmx htmx_request
   \<and> hdr_get (headers (HtmxVaryMiddleware_call page_view htmx_request)) ''Vary'' = Some ''HX-Request''
   \<and> status_code (HtmxVaryMiddleware_call page_view htmx_request) = 200
   \<and> content (HtmxVaryMiddleware_call page_view htmx_request) = ''<main></main>''
   \<and> headers (HtmxVaryMiddleware_call page_view htmx_request) ''content-type''
       = Some (''Content-Type'', ''text/html; charset=utf-8'')
   \<and> \<not> htmx example_request
   \<and> HtmxVaryMiddleware_call page_view example_request = HttpResponse ''<main></main>'' 200"
proof -
  have a: "page_view htmx_request = (HttpResponse ''<main></main>'' 200, htmx_request)"
    and b: "page_view example_request = (HttpResponse ''<main></main>'' 200, example_request)"
    by (simp_all add: page_view_def)
  have k: "''content-type'' \<noteq> lower ''Vary''"
    by (simp add: lower_simps)
  show ?thesis
    using HtmxVaryMiddleware_sets_only_Vary [of page_view htmx_request _ htmx_request, OF a]
      HtmxVaryMiddleware_sets_only_Vary [of page_view example_request _ example_request, OF b]
      htmx_examples(1,2) k
    by (simp add: HttpResponse_def hdr_setitem_def lower_simps)
qed

section \<open>HtmxMessageMiddleware\<close>

text \<open>
  Claim C8. The message middleware of \<open>django_htmx_cbv\<close> and the one of
  \<open>django_htmx_cbvs\<close> test the same three guards in a different order; for every
  request and response one returns before rendering any message exactly when the other
  does.
\<close>

theorem message_guards_equivalent:
  "returns_early request response = returns_early_cbvs request response"
  by (simp add: returns_early_def returns_early_cbvs_def)

text \<open>
  Claim C3. Let the inner handler return \<open>response\<close>, and let \<open>html\<close> be the rendered
  messages template. When the request carries \<open>HX-Request\<close>, the status is outside
  300..399, the response has no \<open>HX-Redirect\<close> header and messages are pending, the
  middleware returns the response with \<open>html\<close> appended to its body, except for status
  204, where it returns a new response with status 200 and body \<open>html\<close>. Without pending
  messages, without \<open>HX-Request\<close>, with a status in 300..399 or with \<open>HX-Redirect\<close> it
  returns the response unchanged.
\<close>

theorem HtmxMessageMiddleware_injects_messages:
  assumes "get_response request = (response, request')"
  shows "let html = render_to_string (messages_template setting) (get_messages request') request';
             result = HtmxMessageMiddleware_call setting render_to_string get_response request;
             eligible = (hdr_contains (req_headers request') ''HX-Request''
                         \<and> \<not> (300 \<le> status_code response \<and> status_code response < 400)
                         \<and> \<not> hdr_contains (headers response) ''HX-Redirect'')
         in (eligible \<and> get_messages request' \<noteq> [] \<and> status_code response \<noteq> 204 \<longrightarrow>
               result = response\<lparr>content := content response @ html\<rparr>)
          \<and> (eligible \<and> get_messages request' \<noteq> [] \<and> status_code response = 204 \<longrightarrow>
               result = HttpResponse html 200
               \<and> status_code result = 200 \<and> content result = html)
          \<and> (eligible \<and> get_messages request' = [] \<longrightarrow> result = response)
          \<and> (\<not> hdr_contains (req_headers request') ''HX-Request'' \<longrightarrow> result = response)
          \<and> (300 \<le> status_code response \<and> status_code response < 400 \<longrightarrow> result = response)
          \<and> (hdr_contains (headers response) ''HX-Redirect'' \<longrightarrow> result = response)"
  using assms
  by (simp add: HtmxMessageMiddleware_call_def returns_early_def Let_def HttpResponse_def)

theorem HtmxMessageMiddleware_witness:
  "HtmxMessageMiddleware_call None render_messages message_view htmx_request
     = (HttpResponse ''<main></main>'' 200)
         \<lparr>content := ''<main></main><li>Message successful!</li>''\<rparr>
   \<and> HtmxMessageMiddleware_call None render_messages message_204_view htmx_request
     = HttpResponse ''<li>Message successful!</li>'' 200
   \<and> HtmxMessageMiddleware_call None render_messages page_view htmx_request
     = HttpResponse ''<main></main>'' 200
   \<and> HtmxMessageMiddleware_call None render_messages message_view example_request
     = HttpResponse ''<main></main>'' 200
   \<and> HtmxMessageMiddleware_call None render_messages redirect_302 htmx_request
     = fst (redirect_302 htmx_request)
   \<and> HtmxMessageMiddleware_call None render_messages client_redirect_view htmx_request
     = client_redirect_response ''/page/''"
proof -
  let ?msg = "\<lambda>r. r\<lparr>messages_storage := [''Message successful!'']\<rparr>"
  have v1: "message_view htmx_request = (HttpResponse ''<main></main>'' 200, ?msg htmx_request)"
    and v2: "message_204_view htmx_request = (HttpResponse [] 204, ?msg htmx_request)"
    and v3: "page_view htmx_request = (HttpResponse ''<main></main>'' 200, htmx_request)"
    and v4: "message_view example_request = (HttpResponse ''<main></main>'' 200, ?msg example_request)"
    and v5: "redirect_302 htmx_request = (fst (redirect_302 htmx_request), ?msg htmx_request)"
    and v6: "client_redirect_view htmx_request = (client_redirect_response ''/page/'', ?msg htmx_request)"
    by (simp_all add: message_view_def message_204_view_def page_view_def redirect_302_def
        client_redirect_view_def)
  have h: "hdr_contains (req_headers (?msg htmx_request)) ''HX-Request''"
      "hdr_contains (req_headers htmx_request) ''HX-Request''"
      "\<not> hdr_contains (req_headers (?msg example_request)) ''HX-Request''"
      "\<not> hdr_contains (headers (HttpResponse c s)) ''HX-Redirect''"
      "hdr_contains (headers (client_redirect_response ''/page/'')) ''HX-Redirect''"
      "status_code (fst (redirect_302 htmx_request)) = 302"
      "get_messages (?msg htmx_request) = [''Message successful!'']"
      "get_messages htmx_request = []"
    for c s
    by (simp_all add: header_defs htmx_request_def example_request_def HttpResponse_def
        client_redirect_response_def redirect_302_def get_messages_def)
  show ?thesis
    using HtmxMessageMiddleware_injects_messages [of message_view htmx_request _ _ render_messages None, OF v1]
      HtmxMessageMiddleware_injects_messages [of message_204_view htmx_request _ _ render_messages None, OF v2]
      HtmxMessageMiddleware_injects_messages [of page_view htmx_request _ _ render_messages None, OF v3]
      HtmxMessageMiddleware_injects_messages [of message_view example_request _ _ render_messages None, OF v4]
      HtmxMessageMiddleware_injects_messages [of redirect_302 htmx_request _ _ render_messages None, OF v5]
      HtmxMessageMiddleware_injects_messages [of client_redirect_view htmx_request _ _ render_messages None, OF v6]
      h
    by (simp add: Let_def render_messages_def messages_template_def HttpResponse_def)
qed

section \<open>HtmxPartialTemplateMiddleware\<close>

text \<open>
  Claim C6, as stated, fails: a response with status 302 that is not of a redirect class
  has no \<open>url\<close> attribute, and for an htmx request the middleware raises
  \<open>AttributeError\<close> instead of returning a client redirect.
\<close>

theorem client_redirect_counterexample:
  "htmx htmx_request
   \<and> status_code (fst (bare_302 htmx_request)) = 302
   \<and> HtmxPartialTemplateMiddleware_call HttpResponseClientRedirect bare_302 htmx_request
       = Inl AttributeError"
  by (simp add: HtmxPartialTemplateMiddleware_call_def bare_302_def HttpResponse_def htmx_examples)

text \<open>
  Claim C6, amended. For an htmx request whose response has status 302 and a redirect
  URL (the \<open>url\<close> of a redirect response class), the middleware calls
  \<open>HttpResponseClientRedirect\<close> on that URL and returns what the constructor gives:
  the client redirect to the URL when the constructor accepts it, and otherwise the
  exception that the constructor raises. For a request that is not an htmx request, and
  for a response whose status is not 302, it returns the response unchanged. This holds
  for every constructor, so it does not depend on the checks that the constructor makes.
\<close>

theorem HtmxPartialTemplateMiddleware_client_redirect:
  assumes "get_response request = (response, request')"
  shows "(htmx request' \<and> status_code response = 302 \<and> url response = Some redirect_to
            \<and> client_redirect redirect_to = Inr redirect \<longrightarrow>
            HtmxPartialTemplateMiddleware_call client_redirect get_response request = Inr redirect)
       \<and> (htmx request' \<and> status_code response = 302 \<and> url response = Some redirect_to
            \<and> client_redirect redirect_to = Inl e \<longrightarrow>
            HtmxPartialTemplateMiddleware_call client_redirect get_response request = Inl e)
       \<and> (\<not> htmx request' \<longrightarrow>
            HtmxPartialTemplateMiddleware_call client_redirect get_response request = Inr response)
       \<and> (status_code response \<noteq> 302 \<longrightarrow>
            HtmxPartialTemplateMiddleware_call client_redirect get_response request = Inr response)"
  using assms by (simp add: HtmxPartialTemplateMiddleware_call_def)

theorem HtmxPartialTemplateMiddleware_witness:
  "HtmxPartialTemplateMiddleware_call HttpResponseClientRedirect redirect_302 htmx_request
     = Inr (client_redirect_response ''/page/'')
   \<and> status_code (client_redirect_response ''/page/'') = 200
   \<and> hdr_get (headers (client_redirect_response ''/page/'')) ''HX-Redirect'' = Some ''/page/''
   \<and> HtmxPartialTemplateMiddleware_call HttpResponseClientRedirect app_redirect htmx_request
     = Inl DisallowedRedirect
   \<and> HtmxPartialTemplateMiddleware_call HttpResponseClientRedirect redirect_302 example_request
     = Inr (fst (redirect_302 example_request))
   \<and> HtmxPartialTemplateMiddleware_call HttpResponseClientRedirect page_view htmx_request
     = Inr (HttpResponse ''<main></main>'' 200)"
proof -
  let ?msg = "\<lambda>r. r\<lparr>messages_storage := [''Message successful!'']\<rparr>"
  have v1: "redirect_302 htmx_request = (fst (redirect_302 htmx_request), ?msg htmx_request)"
    and v2: "redirect_302 example_request = (fst (redirect_302 example_request), ?msg example_request)"
    and v3: "page_view htmx_request = (HttpResponse ''<main></main>'' 200, htmx_request)"
    and v4: "app_redirect htmx_request = (fst (app_redirect htmx_request), htmx_request)"
    by (simp_all add: redirect_302_def page_view_def app_redirect_def)
  have h: "htmx (?msg htmx_request)" "\<not> htmx (?msg example_request)" "htmx htmx_request"
      "status_code (fst (redirect_302 htmx_request)) = 302"
      "url (fst (redirect_302 htmx_request)) = Some ''/page/''"
      "status_code (fst (app_redirect htmx_request)) = 302"
      "url (fst (app_redirect htmx_request)) = Some ''myapp://open''"
      "status_code (HttpResponse ''<main></main>'' 200) \<noteq> 302"
    by (simp_all add: header_defs htmx_request_def example_request_def redirect_302_def
        app_redirect_def HttpResponse_def)
  have c: "HttpResponseClientRedirect ''/page/'' = Inr (client_redirect_response ''/page/'')"
    "HttpResponseClientRedirect ''myapp://open'' = Inl DisallowedRedirect"
    by (simp_all add: HttpResponseClientRedirect_def url_scheme_def lower_def lower_char_def)
  note T = HtmxPartialTemplateMiddleware_client_redirect
  show ?thesis
    using T [of redirect_302 htmx_request _ _ "''/page/''" HttpResponseClientRedirect
          "client_redirect_response ''/page/''" DisallowedRedirect, OF v1]
      T [of app_redirect htmx_request _ _ "''myapp://open''" HttpResponseClientRedirect
          "client_redirect_response ''/page/''" DisallowedRedirect, OF v4]
      T [of redirect_302 example_request _ _ "''/page/''" HttpResponseClientRedirect
          "client_redirect_response ''/page/''" DisallowedRedirect, OF v2]
      T [of page_view htmx_request _ _ "''/page/''" HttpResponseClientRedirect
          "client_redirect_response ''/page/''" DisallowedRedirect, OF v3]
      h c
    by (simp add: client_redirect_response_def header_defs)
qed

lemma unquote_eq_Nil [simp]: "unquote s = [] \<longleftrightarrow> s = []"
  by (induction s rule: unquote.induct) (auto split: option.splits)





section \<open>HttpVerbViewMiddleware\<close>

lemma htmx_update_simps [simp]:
  "htmx (request\<lparr>QUERY := q\<rparr>) = htmx request"
  "htmx (request\<lparr>BODY := b\<rparr>) = htmx request"
  by (simp_all add: htmx_def htmx_get_header_value_def split: option.splits)

text \<open>
  Claim C2, as stated, fails: for a PUT request whose content type is not
  \<open>application/x-www-form-urlencoded\<close>, \<open>process_view\<close> assigns nothing to
  \<open>request.BODY\<close>, so the attribute is still undefined when the request reaches the
  view.
\<close>

theorem BODY_undefined_counterexample:
  "req_method put_json_request = ''PUT''
   \<and> BODY put_json_request = None
   \<and> BODY (process_view put_json_request) = None"
  by (simp add: process_view_def put_json_request_def verb_request_def Let_def py_or_def
      qd_get_def QueryDict_examples header_defs)

text \<open>
  Claim C2, amended. For every request \<open>process_view\<close> of \<open>django_htmx_cbv\<close> sets
  \<open>request.QUERY\<close> to a copy of the URL query parameters. It sets \<open>request.BODY\<close> to an
  empty \<open>QueryDict\<close> for GET and DELETE, to a copy of \<open>request.POST\<close> for POST, and to
  the \<open>QueryDict\<close> parsed from the raw body for PUT and PATCH with content type
  \<open>application/x-www-form-urlencoded\<close>; in all these cases \<open>request.BODY\<close> is defined
  when the request reaches the view.
\<close>

theorem process_view_QUERY_and_BODY:
  "QUERY (process_view request) = Some (GET request)
   \<and> (req_method request = ''GET'' \<or> req_method request = ''DELETE'' \<longrightarrow>
        BODY (process_view request) = Some [])
   \<and> (req_method request = ''POST'' \<longrightarrow> BODY (process_view request) = Some (POST request))
   \<and> ((req_method request = ''PUT'' \<or> req_method request = ''PATCH'')
        \<and> content_type request = ''application/x-www-form-urlencoded'' \<longrightarrow>
        BODY (process_view request) = Some (QueryDict (body request)))"
  by (simp add: process_view_def Let_def copy_def split: option.splits)

theorem process_view_QUERY_and_BODY_witness:
  "QUERY (process_view (verb_request ''GET'' [])) = Some [(''foo'', [''bar''])]
   \<and> BODY (process_view (verb_request ''GET'' [])) = Some []
   \<and> BODY (process_view (verb_request ''DELETE'' [])) = Some []
   \<and> BODY (process_view (verb_request ''POST'' ''int=1&str=1''))
       = Some [(''int'', [''1'']), (''str'', [''1''])]
   \<and> BODY (process_view (verb_request ''PUT'' ''int=1&str=1''))
       = Some [(''int'', [''1'']), (''str'', [''1''])]
   \<and> BODY (process_view (verb_request ''PATCH'' ''int=1&str=1''))
       = Some [(''int'', [''1'']), (''str'', [''1''])]"
  using process_view_QUERY_and_BODY [of "verb_request ''GET'' []"]
    process_view_QUERY_and_BODY [of "verb_request ''DELETE'' []"]
    process_view_QUERY_and_BODY [of "verb_request ''POST'' ''int=1&str=1''"]
    process_view_QUERY_and_BODY [of "verb_request ''PUT'' ''int=1&str=1''"]
    process_view_QUERY_and_BODY [of "verb_request ''PATCH'' ''int=1&str=1''"]
  by (simp add: verb_request_def QueryDict_examples)

text \<open>
  Claim C4. For a request that is not an htmx request, a non-empty \<open>_method\<close> value of
  \<open>request.POST\<close>, or else a non-empty \<open>_method\<close> value of \<open>request.GET\<close>, becomes the
  request method in upper case. For an htmx request, and for a request with no
  \<open>_method\<close> field, the method is unchanged.
\<close>

theorem process_view_method_override:
  "let post_method = qd_get (POST request) ''_method'';
       get_method = qd_get (GET request) ''_method''
   in (\<not> htmx request \<and> post_method = Some m \<and> m \<noteq> [] \<longrightarrow>
         req_method (process_view request) = upper m)
    \<and> (\<not> htmx request \<and> (post_method = None \<or> post_method = Some [])
          \<and> get_method = Some m \<and> m \<noteq> [] \<longrightarrow>
         req_method (process_view request) = upper m)
    \<and> (htmx request \<longrightarrow> req_method (process_view request) = req_method request)
    \<and> (post_method = None \<and> get_method = None \<longrightarrow>
         req_method (process_view request) = req_method request)"
  by (auto simp add: process_view_def Let_def py_or_def split: option.splits)

theorem process_view_method_override_witness:
  "req_method (process_view post_override_request) = ''PUT''
   \<and> req_method (process_view get_override_request) = ''DELETE''
   \<and> req_method (process_view htmx_override_request) = ''POST''
   \<and> req_method (process_view example_request) = ''GET''"
proof -
  have g: "qd_get (POST post_override_request) ''_method'' = Some ''put''"
    "qd_get (POST get_override_request) ''_method'' = None"
    "qd_get (GET get_override_request) ''_method'' = Some ''delete''"
    "qd_get (POST example_request) ''_method'' = None"
    "qd_get (GET example_request) ''_method'' = None"
    by (simp_all add: qd_get_def post_override_request_def get_override_request_def
        verb_request_def example_request_def QueryDict_examples)
  have h: "\<not> htmx post_override_request" "\<not> htmx get_override_request"
    "htmx htmx_override_request"
    by (simp_all add: header_defs post_override_request_def get_override_request_def
        htmx_override_request_def verb_request_def example_request_def)
  have u: "upper ''put'' = ''PUT''" "upper ''delete'' = ''DELETE''"
    by (simp_all add: upper_def upper_char_def)
  have m: "req_method htmx_override_request = ''POST''" "req_method example_request = ''GET''"
    by (simp_all add: htmx_override_request_def post_override_request_def verb_request_def
        example_request_def)
  show ?thesis
    using process_view_method_override [of post_override_request "''put''"]
      process_view_method_override [of get_override_request "''delete''"]
      process_view_method_override [of htmx_override_request "''put''"]
      process_view_method_override [of example_request "''put''"]
      g h u m
    by (simp add: Let_def)
qed

text \<open>
  Claim C9, as stated, fails: for a DELETE request with a form-encoded body the
  middleware of \<open>django_htmx_cbv\<close> sets \<open>request.BODY\<close> to an empty \<open>QueryDict\<close>, the
  one of \<open>django_htmx_cbvs\<close> to the parsed body.
\<close>

theorem process_view_BODY_counterexample:
  "BODY (process_view (verb_request ''DELETE'' ''a=1'')) = Some []
   \<and> BODY (fst (process_view_cbvs (verb_request ''DELETE'' ''a=1''))) = Some [(''a'', [''1''])]"
  by (simp add: process_view_def process_view_cbvs_def body_after_POST_def verb_request_def
      Let_def py_or_def qd_get_def copy_def QueryDict_examples header_defs)

text \<open>
  Claim C9, amended. For every request the two \<open>process_view\<close> implementations assign
  equal values to \<open>request.QUERY\<close>. They assign equal values to \<open>request.BODY\<close> for a
  POST request whose \<open>request.POST\<close> is not empty, for a GET or DELETE request whose
  \<open>request.POST\<close> and raw body are both empty, and for a PUT or PATCH request with
  content type \<open>application/x-www-form-urlencoded\<close> whose \<open>request.POST\<close> is empty.
\<close>

theorem process_view_implementations_agree:
  "QUERY (process_view request) = QUERY (fst (process_view_cbvs request))
   \<and> (req_method request = ''POST'' \<and> POST request \<noteq> [] \<longrightarrow>
        BODY (process_view request) = BODY (fst (process_view_cbvs request))
        \<and> snd (process_view_cbvs request) = None)
   \<and> ((req_method request = ''GET'' \<or> req_method request = ''DELETE'')
        \<and> POST request = [] \<and> body request = [] \<longrightarrow>
        BODY (process_view request) = BODY (fst (process_view_cbvs request))
        \<and> snd (process_view_cbvs request) = None)
   \<and> ((req_method request = ''PUT'' \<or> req_method request = ''PATCH'')
        \<and> content_type request = ''application/x-www-form-urlencoded''
        \<and> POST request = [] \<longrightarrow>
        BODY (process_view request) = BODY (fst (process_view_cbvs request)))"
  by (simp add: process_view_def process_view_cbvs_def body_after_POST_def Let_def copy_def
      split: option.splits)

theorem process_view_implementations_agree_witness:
  "QUERY (fst (process_view_cbvs multipart_request)) = QUERY (process_view multipart_request)
   \<and> QUERY (process_view multipart_request) = Some [(''foo'', [''bar''])]
   \<and> BODY (process_view (verb_request ''POST'' ''int=1&str=1''))
     = BODY (fst (process_view_cbvs (verb_request ''POST'' ''int=1&str=1'')))
   \<and> BODY (fst (process_view_cbvs (verb_request ''POST'' ''int=1&str=1'')))
     = Some [(''int'', [''1'']), (''str'', [''1''])]
   \<and> BODY (process_view (verb_request ''GET'' []))
     = BODY (fst (process_view_cbvs (verb_request ''GET'' [])))
   \<and> BODY (process_view (verb_request ''DELETE'' []))
     = BODY (fst (process_view_cbvs (verb_request ''DELETE'' [])))
   \<and> BODY (fst (process_view_cbvs (verb_request ''DELETE'' []))) = Some []
   \<and> BODY (process_view (verb_request ''PUT'' ''int=1&str=1''))
     = BODY (fst (process_view_cbvs (verb_request ''PUT'' ''int=1&str=1'')))
   \<and> BODY (process_view (verb_request ''PATCH'' ''int=1&str=1''))
     = BODY (fst (process_view_cbvs (verb_request ''PATCH'' ''int=1&str=1'')))
   \<and> BODY (fst (process_view_cbvs (verb_request ''PATCH'' ''int=1&str=1'')))
     = Some [(''int'', [''1'']), (''str'', [''1''])]"
proof -
  have b: "BODY (fst (process_view_cbvs (verb_request ''POST'' ''int=1&str=1'')))
             = Some [(''int'', [''1'']), (''str'', [''1''])]"
    "BODY (fst (process_view_cbvs (verb_request ''DELETE'' []))) = Some []"
    "BODY (fst (process_view_cbvs (verb_request ''PATCH'' ''int=1&str=1'')))
             = Some [(''int'', [''1'']), (''str'', [''1''])]"
    by (simp_all add: process_view_cbvs_def body_after_POST_def verb_request_def Let_def copy_def
        QueryDict_examples split: option.splits)
  have q: "QUERY (process_view multipart_request) = Some [(''foo'', [''bar''])]"
    by (simp add: process_view_def multipart_request_def Let_def copy_def py_or_def qd_get_def
        QueryDict_examples header_defs)
  show ?thesis
    using process_view_implementations_agree [of multipart_request]
      process_view_implementations_agree [of "verb_request ''POST'' ''int=1&str=1''"]
      process_view_implementations_agree [of "verb_request ''GET'' []"]
      process_view_implementations_agree [of "verb_request ''DELETE'' []"]
      process_view_implementations_agree [of "verb_request ''PUT'' ''int=1&str=1''"]
      process_view_implementations_agree [of "verb_request ''PATCH'' ''int=1&str=1''"]
      b q
    by (simp add: verb_request_def QueryDict_examples)
qed

section \<open>Views\<close>

lemma process_view_req_headers [simp]: "req_headers (process_view request) = req_headers request"
  by (simp add: process_view_def Let_def split: option.splits)

lemma process_view_htmx [simp]:
  "htmx (process_view request) = htmx request"
  "htmx_target (process_view request) = htmx_target request"
  by (simp_all add: htmx_def htmx_target_def htmx_get_header_value_def split: option.splits)

lemma process_view_QUERY [simp]: "QUERY (process_view request) = Some (GET request)"
  by (simp add: process_view_def Let_def copy_def split: option.splits)

lemma process_view_htmx_method [simp]:
  "htmx request \<Longrightarrow> req_method (process_view request) = req_method request"
  by (simp add: process_view_def Let_def)

lemma dict_setitem_keys:
  "k \<in> set (map fst d) \<Longrightarrow> map fst (dict_setitem d k v) = map fst d"
  by (induction d) (auto simp add: dict_setitem_def)

lemma map_of_Some_key: "map_of fs k = Some v \<Longrightarrow> k \<in> set (map fst fs)"
  by (metis map_of_eq_None_iff option.distinct(1) set_map)

text \<open>When the loop over the options ends without an error, the form has the fields it
  had before, and every option names one of them.\<close>

lemma set_options_step:
  assumes "set_options fs ((field_name, chs) # rest) = Inr fs'"
  obtains v where "field_name \<in> set (map fst fs)"
    and "set_options (dict_setitem fs field_name v) rest = Inr fs'"
proof (cases "map_of fs field_name")
  case None
  with assms show ?thesis by simp
next
  case (Some form_field)
  then have k: "field_name \<in> set (map fst fs)"
    by (rule map_of_Some_key)
  show ?thesis
  proof (cases form_field)
    case Field
    with assms Some k that show ?thesis by simp
  next
    case (ChoiceField old)
    with assms Some k that show ?thesis by (cases chs) simp_all
  next
    case (ModelChoiceField old)
    with assms Some k that show ?thesis by (cases chs) simp_all
  qed
qed

lemma set_options_keys:
  "set_options fs options = Inr fs' \<Longrightarrow>
     map fst fs' = map fst fs \<and> set (map fst options) \<subseteq> set (map fst fs)"
proof (induction options arbitrary: fs)
  case Nil
  then show ?case by simp
next
  case (Cons option rest)
  obtain field_name chs where o: "option = (field_name, chs)"
    by (cases option)
  obtain v where k: "field_name \<in> set (map fst fs)"
    and r: "set_options (dict_setitem fs field_name v) rest = Inr fs'"
    using Cons.prems unfolding o by (rule set_options_step)
  have e: "map fst (dict_setitem fs field_name v) = map fst fs"
    using k by (rule dict_setitem_keys)
  from Cons.IH [OF r, unfolded e] k o show ?case
    by simp
qed

lemma join_bound_fields_ok:
  "set names \<subseteq> set (map fst (form_fields form)) \<Longrightarrow>
     join_bound_fields self form names = Inr (concat (map (render_bound_field self form) names))"
  by (induction names) auto

lemma HyperFormMixin_get_form_kwargs_GET:
  assumes "req_method request = ''GET''" and "QUERY request = Some q"
  shows "\<exists>kw. HyperFormMixin_get_form_kwargs self request = Inr kw \<and> kw_options kw = None"
  using assms
  by (auto simp add: HyperFormMixin_get_form_kwargs_def get_initial_def Let_def)

text \<open>
  Claim C10, as stated, fails: a GET request that is not an htmx request but carries the
  header \<open>HX-Target: id_choices\<close> passes the test on the target, no \<open>options\<close> are put
  into the form arguments, and reading them raises \<open>KeyError\<close>.
\<close>

theorem HtmxChainedFormView_get_counterexample:
  "req_method (process_view (plain_target_request ''id_choices'')) = ''GET''
   \<and> \<not> htmx (process_view (plain_target_request ''id_choices''))
   \<and> HtmxChainedFormView_get example_view (process_view (plain_target_request ''id_choices''))
       = Inl (KeyError ''options'')"
proof -
  let ?r = "process_view (plain_target_request ''id_choices'')"
  have m: "req_method ?r = ''GET''"
    by (simp add: process_view_def plain_target_request_def example_request_def Let_def
        py_or_def qd_get_def QueryDict_examples split: option.splits)
  have h: "\<not> htmx ?r" and t: "htmx_target ?r = Some ''id_choices''"
    by (simp_all add: htmx_examples htmx_target_examples)
  have i: "''id_choices'' \<in> set (form_field_ids example_view)"
    by (simp add: form_field_ids_def)
  obtain kw where kw: "HyperFormMixin_get_form_kwargs example_view ?r = Inr kw"
    "kw_options kw = None"
    using HyperFormMixin_get_form_kwargs_GET [OF m process_view_QUERY] by blast
  have "HtmxChainedFormView_get example_view ?r = Inl (KeyError ''options'')"
    using h t i kw
    by (simp add: HtmxChainedFormView_get_def get_form_kwargs_def HtmxChainedForm_def)
  with m h show ?thesis by simp
qed

text \<open>
  Claim C10, amended. A request whose htmx target is not one of the choice-field ids of
  the form (\<open>id_<field_name>\<close> for every base field with choices, and \<open>id_choices\<close>)
  gets an empty 204 response, without an exception; this includes every request without
  a target, htmx request or not, since reading \<open>request.htmx.target\<close> gives \<open>None\<close>
  there. An htmx GET request that went through \<open>HttpVerbViewMiddleware\<close>, whose target
  is one of these ids, and for which \<open>get_options\<close> returns options that the form
  accepts, gets a 200 response whose body is the concatenation of the rendered option
  fields.
\<close>

theorem HtmxChainedFormView_get_responses:
  "((\<forall>t. htmx_target request = Some t \<longrightarrow> t \<notin> set (form_field_ids self)) \<longrightarrow>
       HtmxChainedFormView_get self request = Inr (HttpResponse [] 204))
   \<and> (htmx_target request = None \<longrightarrow>
       HtmxChainedFormView_get self request = Inr (HttpResponse [] 204))
   \<and> (htmx request \<and> htmx_target request = Some t \<and> t \<in> set (form_field_ids self)
       \<and> req_method request = ''GET'' \<and> QUERY request = Some q
       \<and> get_options self request = Inr options
       \<and> set_options (base_fields self) options = Inr fs \<longrightarrow>
       (\<exists>form. form_fields form = fs
          \<and> HtmxChainedFormView_get self request
              = Inr (HttpResponse
                       (concat (map (render_bound_field self form) (map fst options))) 200)))"
proof (intro conjI impI)
  assume "\<forall>t. htmx_target request = Some t \<longrightarrow> t \<notin> set (form_field_ids self)"
  then show "HtmxChainedFormView_get self request = Inr (HttpResponse [] 204)"
    by (auto simp add: HtmxChainedFormView_get_def split: option.splits)
next
  assume "htmx_target request = None"
  then show "HtmxChainedFormView_get self request = Inr (HttpResponse [] 204)"
    by (simp add: HtmxChainedFormView_get_def)
next
  assume a: "htmx request \<and> htmx_target request = Some t \<and> t \<in> set (form_field_ids self)
       \<and> req_method request = ''GET'' \<and> QUERY request = Some q
       \<and> get_options self request = Inr options
       \<and> set_options (base_fields self) options = Inr fs"
  then obtain kw where kw: "HyperFormMixin_get_form_kwargs self request = Inr kw"
    using HyperFormMixin_get_form_kwargs_GET [of request q self] by blast
  let ?kw = "kw\<lparr>kw_options := Some options\<rparr>"
  let ?form = "\<lparr>form_fields = fs, form_initial = kw_initial kw, form_data = kw_data kw\<rparr>"
  have g: "get_form_kwargs self request = Inr ?kw"
    using a kw by (simp add: get_form_kwargs_def)
  have f: "HtmxChainedForm (base_fields self) ?kw = Inr ?form"
    using a by (simp add: HtmxChainedForm_def)
  have "set (map fst options) \<subseteq> set (map fst (form_fields ?form))"
    using a set_options_keys [of "base_fields self" options fs] by simp
  then have j: "join_bound_fields self ?form (map fst options)
                  = Inr (concat (map (render_bound_field self ?form) (map fst options)))"
    by (rule join_bound_fields_ok)
  have "HtmxChainedFormView_get self request
          = Inr (HttpResponse (concat (map (render_bound_field self ?form) (map fst options))) 200)"
    using a g f j by (simp add: HtmxChainedFormView_get_def)
  then show "\<exists>form. form_fields form = fs
          \<and> HtmxChainedFormView_get self request
              = Inr (HttpResponse
                       (concat (map (render_bound_field self form) (map fst options))) 200)"
    by (intro exI [of _ ?form]) simp
qed

theorem HtmxChainedFormView_get_witness:
  "HtmxChainedFormView_get example_view (process_view (htmx_target_request ''id_city''))
     = Inr (HttpResponse ''<select name=city/>'' 200)
   \<and> HtmxChainedFormView_get example_view (process_view (htmx_target_request ''main''))
     = Inr (HttpResponse [] 204)
   \<and> HtmxChainedFormView_get example_view (process_view example_request)
     = Inr (HttpResponse [] 204)"
proof -
  let ?r = "process_view (htmx_target_request ''id_city'')"
  have m: "req_method ?r = ''GET''"
    using process_view_htmx_method [OF htmx_examples(3) [of "''id_city''"]]
    by (simp add: htmx_target_request_def example_request_def)
  have h: "htmx ?r" and t: "htmx_target ?r = Some ''id_city''"
    by (simp_all add: htmx_examples htmx_target_examples)
  have i: "''id_city'' \<in> set (form_field_ids example_view)"
    by (simp add: form_field_ids_def example_view_def hasattr_choices_def)
  have o: "get_options example_view ?r = Inr [(''city'', PyList [''Paris'', ''Lyon''])]"
    by (simp add: example_view_def)
  have s: "set_options (base_fields example_view) [(''city'', PyList [''Paris'', ''Lyon''])]
             = Inr [(''country'', ChoiceField []), (''city'', ChoiceField [''Paris'', ''Lyon'']),
                    (''name'', Field)]"
    by (simp add: example_view_def dict_setitem_def)
  have n: "''main'' \<notin> set (form_field_ids example_view)"
    by (simp add: form_field_ids_def example_view_def hasattr_choices_def)
  have r: "render_bound_field example_view form ''city'' = ''<select name=city/>''" for form
    by (simp add: example_view_def)
  show ?thesis
    using HtmxChainedFormView_get_responses [where self = example_view and request = ?r
          and t = "''id_city''" and q = "GET (htmx_target_request ''id_city'')"
          and options = "[(''city'', PyList [''Paris'', ''Lyon''])]"
          and fs = "[(''country'', ChoiceField []), (''city'', ChoiceField [''Paris'', ''Lyon'']),
                    (''name'', Field)]"]
      HtmxChainedFormView_get_responses [where self = example_view
          and request = "process_view (htmx_target_request ''main'')"]
      HtmxChainedFormView_get_responses [where self = example_view
          and request = "process_view example_request"]
      m h t i o s n r
    by (auto simp add: htmx_target_examples)
qed

text \<open>
  Claim C5, as stated, fails: \<open>PermissionDenied\<close> is raised by \<open>setup\<close> for a view
  whose subclass does override \<open>has_permission\<close>, whenever that method returns false.
\<close>

theorem PermissionDenied_counterexample:
  "refuse example_request 1 \<noteq> SingleObjectPermissionMixin_has_permission example_request 1
   \<and> SingleObjectPermissionMixin_setup found_object refuse example_request = Inl PermissionDenied"
  by (simp add: SingleObjectPermissionMixin_setup_def SingleObjectPermissionMixin_has_permission_def
      found_object_def refuse_def)

text \<open>
  Claim C5, amended. The base implementations of \<open>ProcessHyperFormView.delete\<close>,
  \<open>SingleObjectPermissionMixin.has_permission\<close> and \<open>HtmxChainedFormView.get_options\<close>
  raise \<open>ImproperlyConfigured\<close> for every request, before a response is produced:
  \<open>setup\<close> of a view that keeps the base \<open>has_permission\<close> raises it as soon as the
  object is found, and \<open>get\<close> of a chained form view that keeps the base \<open>get_options\<close>
  raises it for an htmx GET request that targets a choice field. \<open>PermissionDenied\<close> is
  raised by \<open>setup\<close> exactly when \<open>get_object\<close> raises it, or the object is found and
  \<open>has_permission\<close> returns false or raises it.
\<close>

theorem required_overrides_raise:
  "ProcessHyperFormView_delete request = Inl ImproperlyConfigured
   \<and> SingleObjectPermissionMixin_has_permission request obj = Inl ImproperlyConfigured
   \<and> HtmxChainedFormView_get_options request = Inl ImproperlyConfigured
   \<and> (get_object request = Inr obj \<longrightarrow>
        SingleObjectPermissionMixin_setup get_object SingleObjectPermissionMixin_has_permission request
          = Inl ImproperlyConfigured)
   \<and> (htmx request \<and> htmx_target request = Some t \<and> t \<in> set (form_field_ids self)
        \<and> req_method request = ''GET'' \<and> QUERY request = Some q
        \<and> get_options self = HtmxChainedFormView_get_options \<longrightarrow>
        HtmxChainedFormView_get self request = Inl ImproperlyConfigured)
   \<and> ((SingleObjectPermissionMixin_setup get_object has_permission request = Inl PermissionDenied)
        = (get_object request = Inl PermissionDenied
           \<or> (\<exists>found. get_object request = Inr found
                 \<and> (has_permission request found = Inr False
                    \<or> has_permission request found = Inl PermissionDenied))))"
proof -
  have "HtmxChainedFormView_get self request = Inl ImproperlyConfigured"
    if a: "htmx request" "htmx_target request = Some t" "t \<in> set (form_field_ids self)"
      "req_method request = ''GET''" "QUERY request = Some q"
      "get_options self = HtmxChainedFormView_get_options"
  proof -
    obtain kw where "HyperFormMixin_get_form_kwargs self request = Inr kw"
      using HyperFormMixin_get_form_kwargs_GET [OF a(4,5)] by blast
    with a show ?thesis
      by (simp add: HtmxChainedFormView_get_def get_form_kwargs_def
          HtmxChainedFormView_get_options_def)
  qed
  moreover have "(SingleObjectPermissionMixin_setup get_object has_permission request
                    = Inl PermissionDenied)
        = (get_object request = Inl PermissionDenied
           \<or> (\<exists>found. get_object request = Inr found
                 \<and> (has_permission request found = Inr False
                    \<or> has_permission request found = Inl PermissionDenied)))"
    by (auto simp add: SingleObjectPermissionMixin_setup_def split: sum.splits if_splits)
  ultimately show ?thesis
    by (simp add: ProcessHyperFormView_delete_def SingleObjectPermissionMixin_has_permission_def
        HtmxChainedFormView_get_options_def SingleObjectPermissionMixin_setup_def)
qed

theorem required_overrides_raise_witness:
  "SingleObjectPermissionMixin_setup found_object SingleObjectPermissionMixin_has_permission
     example_request = Inl ImproperlyConfigured
   \<and> HtmxChainedFormView_get unconfigured_view (process_view (htmx_target_request ''id_city''))
     = Inl ImproperlyConfigured
   \<and> SingleObjectPermissionMixin_setup found_object refuse example_request = Inl PermissionDenied"
proof -
  let ?r = "process_view (htmx_target_request ''id_city'')"
  have m: "req_method ?r = ''GET''"
    using process_view_htmx_method [OF htmx_examples(3) [of "''id_city''"]]
    by (simp add: htmx_target_request_def example_request_def)
  have h: "htmx ?r" and t: "htmx_target ?r = Some ''id_city''"
    by (simp_all add: htmx_examples htmx_target_examples)
  have i: "''id_city'' \<in> set (form_field_ids unconfigured_view)"
    by (simp add: form_field_ids_def unconfigured_view_def example_view_def hasattr_choices_def)
  have o: "get_options unconfigured_view = HtmxChainedFormView_get_options"
    by (simp add: unconfigured_view_def)
  have f: "found_object example_request = Inr 1" "refuse example_request 1 = Inr False"
    by (simp_all add: found_object_def refuse_def)
  show ?thesis
    using required_overrides_raise [where request = example_request and get_object = found_object
          and obj = 1 and has_permission = refuse and self = unconfigured_view
          and t = "''id_city''" and q = "GET (htmx_target_request ''id_city'')"]
      required_overrides_raise [where request = ?r and get_object = found_object
          and obj = 1 and has_permission = refuse and self = unconfigured_view
          and t = "''id_city''" and q = "GET (htmx_target_request ''id_city'')"]
      m h t i o f
    by simp
qed

end
